theory Spec2Isabelle
  imports Complex_Main
begin

section \<open>Python values and built-in operations\<close>

text \<open>
  The invoice back end is Python. A Python \<open>str\<close> is modelled as a \<^typ>\<open>string\<close>, one
  \<^typ>\<open>char\<close> per code point (code points below 256), so \<^const>\<open>length\<close> is Python's
  \<open>len\<close>. A finite Python \<open>float\<close> is modelled by the real number it denotes: the
  rounding of float arithmetic, infinities and NaN are outside the model. Conversions
  between floats and text (\<open>float(s)\<close>, \<open>str(x)\<close>, format specifications) are built-ins
  of the interpreter and are taken as parameters, collected in the record \<open>pylib\<close>.
\<close>

datatype pyval =
    PNone
  | PBool bool
  | PInt int
  | PFloat real
  | PStr string
  | PList "pyval list"
  | PDict "(string \<times> pyval) list"

datatype pyerror = ValueError | TypeError | ZeroDivisionError

datatype pydate = Date nat nat nat

record pylib =
  float_of_str :: "string \<Rightarrow> real option"
  str_of_float :: "real \<Rightarrow> string"
  str_of_container :: "pyval \<Rightarrow> string"
  format_comma0 :: "real \<Rightarrow> string"
  format_fixed1 :: "real \<Rightarrow> string"
  date_fromisoformat :: "string \<Rightarrow> pydate option"
  int_of_str :: "string \<Rightarrow> int option"
  search_qr :: "string \<Rightarrow> string option"

text \<open>
  \<open>float_of_str\<close> is \<open>float(s)\<close> on a \<open>str\<close> (\<open>None\<close> when it raises \<open>ValueError\<close>),
  \<open>str_of_float\<close> is \<open>str(x)\<close> on a float, \<open>str_of_container\<close> is \<open>str(x)\<close> on a list or a
  dict, \<open>format_comma0\<close> is \<open>format(x, ',.0f')\<close>, \<open>format_fixed1\<close> is \<open>format(x, '.1f')\<close>,
  \<open>date_fromisoformat\<close> is \<open>date.fromisoformat(s)\<close> (\<open>None\<close> when it raises \<open>ValueError\<close>;
  a date is year, month, day), \<open>int_of_str\<close> is \<open>int(s)\<close> on a \<open>str\<close> (\<open>None\<close> when it raises
  \<open>ValueError\<close>) and \<open>search_qr\<close> is the first group of
  \<^verbatim>\<open>re.search(r'(https?://[^\s]+searchqr[^\s]+)', s)\<close> (\<open>None\<close> when nothing matches).
\<close>

definition digit_char :: "nat \<Rightarrow> char" where
  "digit_char d = ''0123456789'' ! d"

function nat_digits :: "nat \<Rightarrow> string" where
  "nat_digits n =
     (if n < 10 then [digit_char n] else nat_digits (n div 10) @ [digit_char (n mod 10)])"
  by pat_completeness auto
termination
  by (relation "measure (\<lambda>n. n)") auto

definition str_of_int :: "int \<Rightarrow> string" where
  \<comment> \<open>\<open>str(i)\<close> on an int\<close>
  "str_of_int i = (if i < 0 then CHR ''-'' # nat_digits (nat (- i)) else nat_digits (nat i))"

fun py_str :: "pylib \<Rightarrow> pyval \<Rightarrow> string" where
  "py_str lib PNone = ''None''"
| "py_str lib (PBool b) = (if b then ''True'' else ''False'')"
| "py_str lib (PInt i) = str_of_int i"
| "py_str lib (PFloat x) = str_of_float lib x"
| "py_str lib (PStr s) = s"
| "py_str lib (PList xs) = str_of_container lib (PList xs)"
| "py_str lib (PDict kvs) = str_of_container lib (PDict kvs)"

definition is_space :: "char \<Rightarrow> bool" where
  \<comment> \<open>\<open>str.isspace\<close> on one code point below 256\<close>
  "is_space c = ((of_char c :: nat) \<in> {9, 10, 11, 12, 13, 28, 29, 30, 31, 32, 133, 160})"

definition py_strip :: "string \<Rightarrow> string" where
  "py_strip s = rev (dropWhile is_space (rev (dropWhile is_space s)))"

definition py_lower_char :: "char \<Rightarrow> char" where
  \<comment> \<open>\<open>str.lower\<close> on one code point below 256: A-Z and the Latin-1 capitals\<close>
  "py_lower_char c =
     (let n = (of_char c :: nat) in
      if (65 \<le> n \<and> n \<le> 90) \<or> (192 \<le> n \<and> n \<le> 222 \<and> n \<noteq> 215) then char_of (n + 32) else c)"

definition py_lower :: "string \<Rightarrow> string" where
  "py_lower s = map py_lower_char s"

function py_replace :: "string \<Rightarrow> string \<Rightarrow> string \<Rightarrow> string" where
  \<comment> \<open>\<open>s.replace(old, new)\<close> for a non-empty \<open>old\<close>: left to right, non-overlapping\<close>
  "py_replace old new [] = []"
| "py_replace old new (c # cs) =
     (if old \<noteq> [] \<and> take (length old) (c # cs) = old
      then new @ py_replace old new (drop (length old) (c # cs))
      else c # py_replace old new cs)"
  by pat_completeness auto
termination
  by (relation "measure (\<lambda>(old, new, s). length s)") auto

fun py_split :: "char \<Rightarrow> string \<Rightarrow> string list" where
  \<comment> \<open>\<open>s.split(sep)\<close> for a one-character separator\<close>
  "py_split sep [] = [[]]"
| "py_split sep (c # cs) =
     (if c = sep then [] # py_split sep cs
      else (case py_split sep cs of
              [] \<Rightarrow> [[c]]
            | p # ps \<Rightarrow> (c # p) # ps))"

fun py_in :: "string \<Rightarrow> string \<Rightarrow> bool" where
  \<comment> \<open>\<open>sub in s\<close> on strings\<close>
  "py_in sub [] = (sub = [])"
| "py_in sub (c # cs) = (take (length sub) (c # cs) = sub \<or> py_in sub cs)"

fun split_ws_from :: "string \<Rightarrow> string \<Rightarrow> string list" where
  \<comment> \<open>the words of a string, given the reversed word read so far\<close>
  "split_ws_from cur [] = (if cur = [] then [] else [rev cur])"
| "split_ws_from cur (c # cs) =
     (if is_space c
      then (if cur = [] then split_ws_from [] cs else rev cur # split_ws_from [] cs)
      else split_ws_from (c # cur) cs)"

definition py_split_ws :: "string \<Rightarrow> string list" where
  \<comment> \<open>\<open>s.split()\<close>: the maximal runs of characters that are not white space\<close>
  "py_split_ws s = split_ws_from [] s"

definition py_sum :: "real list \<Rightarrow> real" where
  \<comment> \<open>\<open>sum(xs)\<close>: the additions from the left, starting at 0\<close>
  "py_sum xs = foldl (+) 0 xs"

definition py_sum_val :: "real list \<Rightarrow> pyval" where
  \<comment> \<open>\<open>sum(xs)\<close> as a Python value: the int 0 of an empty sum, a float otherwise\<close>
  "py_sum_val xs = (if xs = [] then PInt 0 else PFloat (py_sum xs))"

section \<open>The Colombian-number parser (\<open>main.py\<close>)\<close>

definition colombian_stripped :: "string \<Rightarrow> string" where
  \<comment> \<open>the local \<open>s\<close> of \<open>_parse_colombian_number\<close> once the currency text is removed\<close>
  "colombian_stripped v =
     py_strip (py_replace '' '' [] (py_replace ''COP'' [] (py_replace ''$'' [] (py_strip v))))"

definition colombian_normalized :: "string \<Rightarrow> string" where
  \<comment> \<open>the local \<open>s\<close> of \<open>_parse_colombian_number\<close> as it is handed to \<open>float\<close>\<close>
  "colombian_normalized v =
     (let s = colombian_stripped v;
          has_dot = py_in ''.'' s;
          has_comma = py_in '','' s
      in if has_dot \<and> has_comma then py_replace '','' ''.'' (py_replace ''.'' [] s)
         else if has_dot then
           (let dot_count = count_list s (CHR ''.'') in
            if dot_count > 1 then py_replace ''.'' [] s
            else (let parts = py_split (CHR ''.'') s in
                  if length parts = 2 \<and> length (parts ! 1) = 3 \<and> length s > 6
                  then py_replace ''.'' [] s
                  else s))
         else if has_comma then py_replace '','' ''.'' s
         else s)"

definition parse_colombian_number :: "pylib \<Rightarrow> pyval \<Rightarrow> real option" where
  \<comment> \<open>\<open>_parse_colombian_number\<close>; \<open>None\<close> is the \<open>ValueError\<close> of \<open>float\<close>\<close>
  "parse_colombian_number lib v = float_of_str lib (colombian_normalized (py_str lib v))"

subsection \<open>Plain decimal numerals\<close>

definition is_digit :: "char \<Rightarrow> bool" where
  "is_digit c = (48 \<le> (of_char c :: nat) \<and> (of_char c :: nat) \<le> 57)"

definition digits_value :: "string \<Rightarrow> nat" where
  "digits_value ds = foldl (\<lambda>a c. 10 * a + ((of_char c :: nat) - 48)) 0 ds"

definition decimal_float :: "string \<Rightarrow> real option" where
  \<comment> \<open>the number that \<open>float\<close> reads from an unsigned numeral \<open>ddd\<close>, \<open>ddd.ddd\<close>, \<open>ddd.\<close> or
      \<open>.ddd\<close> (before rounding to a double); \<open>None\<close> on every other string, so it agrees with
      \<open>float\<close> on these numerals only and serves as its instance in the examples\<close>
  "decimal_float s =
     (let ip = takeWhile is_digit s; rest = dropWhile is_digit s in
      case rest of
        [] \<Rightarrow> if ip = [] then None else Some (real (digits_value ip))
      | c # fp \<Rightarrow>
          if c = CHR ''.'' \<and> list_all is_digit fp \<and> (ip \<noteq> [] \<or> fp \<noteq> [])
          then Some (real (digits_value ip) + real (digits_value fp) / 10 ^ length fp)
          else None)"


section \<open>The invoice data model (\<open>models.py\<close>)\<close>

text \<open>
  Each pydantic model is a record with the fields of the class. A field name that two
  classes share keeps its name in the class the rules read and gets a prefix in the
  other: \<open>party_tax_scheme_id\<close> is \<open>PartyInfo.tax_scheme_id\<close>, the \<open>il_\<close> fields are
  \<open>InvoiceLine\<close>'s, \<open>period_description\<close> is \<open>InvoicePeriod.description\<close> and
  \<open>ref_description\<close> is \<open>AttachmentReference.description\<close>. \<open>invoice_notes\<close> is
  \<open>XMLInvoiceData.notes\<close>, \<open>id'\<close> is \<open>ValidationRule.id\<close> and \<open>prefix_authorized\<close> is
  \<open>InvoiceAuthorization.prefix\<close>. The field \<open>condicion_condicional\<close> of a rule, which no
  code reads, is left out; the time stamp of a validation result is a type parameter.
\<close>

datatype RuleType = BLOCKING | WARNING

datatype RuleStatus = PASSED | FAILED | SKIPPED

record TaxDetail =
  tax_scheme_id :: string
  tax_name :: string
  taxable_amount :: real
  tax_percentage :: real
  tax_amount :: real

record PartyInfo =
  company_id :: string
  registration_name :: string
  tax_level_code :: "string option"
  party_tax_scheme_id :: "string option"
  address_line :: "string option"
  city_name :: "string option"
  department :: "string option"
  country_code :: "string option"
  email :: "string option"
  phone :: "string option"
  supplier_assigned_account_id :: "string option"

record InvoiceLine =
  line_id :: string
  il_description :: string
  quantity :: real
  unit_code :: string
  unit_price :: real
  il_line_extension_amount :: real
  product_code :: "string option"
  il_tax_amount :: "real option"

record OrderReference =
  order_id :: string
  sales_order_id :: "string option"

record AttachmentReference =
  reference_id :: string
  reference_type :: string
  ref_description :: "string option"
  found_in_zip :: bool
  matched_filename :: "string option"

record PaymentMeans =
  payment_means_id :: string
  payment_means_code :: string
  payment_due_date :: "pydate option"

record InvoiceAuthorization =
  authorization_number :: "string option"
  authorization_date :: "pydate option"
  authorization_end_date :: "pydate option"
  prefix_authorized :: "string option"
  range_from :: "string option"
  range_to :: "string option"

record InvoicePeriod =
  start_date :: "pydate option"
  end_date :: "pydate option"
  period_description :: "string option"

record MonetaryTotal =
  line_extension_amount :: real
  tax_exclusive_amount :: real
  tax_inclusive_amount :: real
  allowance_total_amount :: "real option"
  charge_total_amount :: "real option"
  payable_amount :: real

record XMLInvoiceData =
  invoice_number :: string
  cufe :: string
  issue_date :: pydate
  issue_time :: "string option"
  due_date :: "pydate option"
  currency_code :: string
  invoice_type_code :: string
  invoice_notes :: "string list"
  supplier :: PartyInfo
  customer :: PartyInfo
  payment_means :: "PaymentMeans list"
  invoice_period :: "InvoicePeriod option"
  authorization :: "InvoiceAuthorization option"
  taxes :: "TaxDetail list"
  withholding_taxes :: "TaxDetail list"
  monetary_total :: MonetaryTotal
  total_discount :: real
  total_charges :: real
  prepaid_amount :: real
  lines :: "InvoiceLine list"
  line_count :: int
  order_reference :: "OrderReference option"
  qr_code :: "string option"
  total_iva :: real
  total_retenciones :: real
  attachment_references :: "AttachmentReference list"
  raw_xml_path :: "string option"

record RuleCondition =
  campo :: string
  operador :: string
  valor :: pyval

record ValidationRule =
  id' :: string
  nombre :: string
  descripcion :: string
  tipo :: RuleType
  fuentes :: "string list"
  condicion :: "RuleCondition option"
  is_custom :: bool

record RuleResult =
  rule_id :: string
  rule_name :: string
  status :: RuleStatus
  message :: string
  details :: "(string \<times> pyval) list option"

record 'time ValidationResult =
  invoice_id :: string
  timestamp :: 'time
  results :: "RuleResult list"
  blocking_failures :: nat
  warnings :: nat
  passed :: nat
  can_submit :: bool

section \<open>The XML parser (\<open>xml_parser.py\<close>)\<close>

text \<open>
  The parser works on the element tree that \<open>ET.fromstring\<close> returns. An element has a
  tag, attributes, an optional text and children. A tag is written with the prefix that
  the table \<open>NAMESPACES\<close> gives its namespace (\<open>cbc:ID\<close> for the element \<open>ID\<close> of the
  CommonBasicComponents namespace), as the paths of the source are.
\<close>

datatype xml =
  Element (elem_tag: string) (elem_attrib: "(string \<times> string) list")
    (elem_text: "string option") (elem_children: "xml list")

definition et_find :: "string \<Rightarrow> xml \<Rightarrow> xml option" where
  \<comment> \<open>\<open>element.find('p:Tag', NAMESPACES)\<close>: the first child with the tag\<close>
  "et_find t e = List.find (\<lambda>c. elem_tag c = t) (elem_children e)"

definition et_findall :: "string \<Rightarrow> xml \<Rightarrow> xml list" where
  \<comment> \<open>\<open>element.findall('p:Tag', NAMESPACES)\<close>: the children with the tag, in order\<close>
  "et_findall t e = filter (\<lambda>c. elem_tag c = t) (elem_children e)"

fun et_iter :: "xml \<Rightarrow> xml list" where
  \<comment> \<open>\<open>element.iter()\<close>: the element and its descendants in document order\<close>
  "et_iter (Element t a x cs) = Element t a x cs # concat (map et_iter cs)"

definition et_descendants :: "string \<Rightarrow> xml \<Rightarrow> xml list" where
  \<comment> \<open>the matches of the path \<open>.//p:Tag\<close>: the proper descendants with the tag\<close>
  "et_descendants t e =
     filter (\<lambda>c. elem_tag c = t) (concat (map et_iter (elem_children e)))"

definition et_first :: "xml list \<Rightarrow> xml option" where
  "et_first es = (case es of [] \<Rightarrow> None | e # _ \<Rightarrow> Some e)"

definition et_or :: "xml option \<Rightarrow> xml option \<Rightarrow> xml option" where
  \<comment> \<open>\<open>a or b\<close> on the results of \<open>find\<close>: an element is true when it has children\<close>
  "et_or a b =
     (case a of
        None \<Rightarrow> b
      | Some e \<Rightarrow> if elem_children e \<noteq> [] then Some e else b)"

definition find_text_node :: "xml option \<Rightarrow> string \<Rightarrow> string" where
  \<comment> \<open>\<open>_find_text\<close> once \<open>element.find(path)\<close> has returned the node\<close>
  "find_text_node node dflt =
     (case node of
        None \<Rightarrow> dflt
      | Some n \<Rightarrow>
          (case elem_text n of
             None \<Rightarrow> dflt
           | Some t \<Rightarrow> if t \<noteq> [] then py_strip t else dflt))"

definition find_text :: "xml \<Rightarrow> string \<Rightarrow> string \<Rightarrow> string" where
  \<comment> \<open>\<open>_find_text(element, path, default)\<close> for a path that is one tag\<close>
  "find_text e path dflt = find_text_node (et_find path e) dflt"

definition find_float :: "pylib \<Rightarrow> xml \<Rightarrow> string \<Rightarrow> real \<Rightarrow> real" where
  \<comment> \<open>\<open>_find_float(element, path, default)\<close>\<close>
  "find_float lib e path dflt =
     (let txt = find_text e path [] in
      if txt \<noteq> []
      then (case float_of_str lib (py_replace '','' [] txt) of
              Some x \<Rightarrow> x
            | None \<Rightarrow> dflt)
      else dflt)"

definition parse_date :: "pylib \<Rightarrow> string \<Rightarrow> pydate option" where
  \<comment> \<open>\<open>_parse_date\<close>\<close>
  "parse_date lib date_str = (if date_str = [] then None else date_fromisoformat lib date_str)"

definition none_if_empty :: "string \<Rightarrow> string option" where
  \<comment> \<open>the expression \<open>x if x else None\<close>\<close>
  "none_if_empty x = (if x \<noteq> [] then Some x else None)"

definition TAX_SCHEME_NAMES :: "(string \<times> string) list" where
  "TAX_SCHEME_NAMES =
     [(''01'', ''IVA''), (''04'', ''INC''), (''05'', ''ReteIVA''), (''06'', ''ReteRenta''),
      (''07'', ''ReteICA''), (''ZZ'', ''Otros'')]"

definition tax_scheme_name :: "string \<Rightarrow> string" where
  \<comment> \<open>\<open>TAX_SCHEME_NAMES.get(tax_scheme_id, f"Tax-{tax_scheme_id}")\<close>\<close>
  "tax_scheme_name sid =
     (case map_of TAX_SCHEME_NAMES sid of
        Some n \<Rightarrow> n
      | None \<Rightarrow> ''Tax-'' @ sid)"

definition parse_tax :: "pylib \<Rightarrow> xml \<Rightarrow> TaxDetail" where
  \<comment> \<open>\<open>_parse_tax\<close>\<close>
  "parse_tax lib tax_element =
     (let tax_subtotal =
            (case et_find ''cac:TaxSubtotal'' tax_element of
               None \<Rightarrow> tax_element
             | Some t \<Rightarrow> t);
          taxable = find_float lib tax_subtotal ''cbc:TaxableAmount'' 0;
          amount = find_float lib tax_subtotal ''cbc:TaxAmount'' 0;
          tax_category = et_find ''cac:TaxCategory'' tax_subtotal;
          percentage =
            (case tax_category of
               None \<Rightarrow> 0
             | Some tc \<Rightarrow> find_float lib tc ''cbc:Percent'' 0);
          scheme =
            (case tax_category of
               None \<Rightarrow> []
             | Some tc \<Rightarrow>
                 (case et_find ''cac:TaxScheme'' tc of
                    None \<Rightarrow> []
                  | Some ts \<Rightarrow> find_text ts ''cbc:ID'' []))
      in \<lparr>tax_scheme_id = scheme, tax_name = tax_scheme_name scheme,
          taxable_amount = taxable, tax_percentage = percentage, tax_amount = amount\<rparr>)"

definition scheme31_account_node :: "xml \<Rightarrow> xml option" where
  \<comment> \<open>\<open>find\<close> of the path
      \<^verbatim>\<open>cac:PartyIdentification/cbc:ID[@schemeID="31"]/../../cbc:SupplierAssignedAccountID\<close>:
      when some \<open>PartyIdentification\<close> child has an \<open>ID\<close> child with that attribute, the two
      parent steps lead back to the element, and its first account child is the result\<close>
  "scheme31_account_node p =
     (if list_ex
           (\<lambda>pid. list_ex (\<lambda>i. map_of (elem_attrib i) ''schemeID'' = Some ''31'')
                    (et_findall ''cbc:ID'' pid))
           (et_findall ''cac:PartyIdentification'' p)
      then et_find ''cbc:SupplierAssignedAccountID'' p
      else None)"

definition parse_party :: "xml \<Rightarrow> PartyInfo" where
  \<comment> \<open>\<open>_parse_party\<close>\<close>
  "parse_party party_element =
     (let party =
            (case et_find ''cac:Party'' party_element of
               None \<Rightarrow> party_element
             | Some p \<Rightarrow> p);
          company_id0 =
            (case et_find ''cac:PartyIdentification'' party of
               None \<Rightarrow> []
             | Some pid \<Rightarrow> find_text pid ''cbc:ID'' []);
          party_tax = et_find ''cac:PartyTaxScheme'' party;
          registration_name0 =
            (case party_tax of
               None \<Rightarrow> []
             | Some pts \<Rightarrow> find_text pts ''cbc:RegistrationName'' []);
          company_id1 =
            (case party_tax of
               None \<Rightarrow> company_id0
             | Some pts \<Rightarrow>
                 if company_id0 \<noteq> [] then company_id0 else find_text pts ''cbc:CompanyID'' []);
          tax_level =
            (case party_tax of
               None \<Rightarrow> []
             | Some pts \<Rightarrow> find_text pts ''cbc:TaxLevelCode'' []);
          scheme =
            (case party_tax of
               None \<Rightarrow> []
             | Some pts \<Rightarrow>
                 (case et_find ''cac:TaxScheme'' pts of
                    None \<Rightarrow> []
                  | Some ts \<Rightarrow> find_text ts ''cbc:ID'' []));
          account =
            (case et_find ''cac:Party'' party_element of
               None \<Rightarrow> []
             | Some customer_party \<Rightarrow>
                 (let a = find_text_node (scheme31_account_node customer_party) [] in
                  if a = []
                  then find_text_node
                         (et_first (et_descendants ''cbc:SupplierAssignedAccountID'' party_element)) []
                  else a));
          registration_name1 =
            (case et_find ''cac:PartyLegalEntity'' party of
               None \<Rightarrow> registration_name0
             | Some ple \<Rightarrow>
                 if registration_name0 \<noteq> [] then registration_name0
                 else find_text ple ''cbc:RegistrationName'' []);
          registration_name2 =
            (case et_find ''cac:PartyName'' party of
               None \<Rightarrow> registration_name1
             | Some pn \<Rightarrow>
                 if registration_name1 = [] then find_text pn ''cbc:Name'' []
                 else registration_name1);
          address =
            et_or (et_first (et_descendants ''cac:Address'' party))
              (et_first (concat (map (et_findall ''cac:Address'')
                                   (et_descendants ''cac:PhysicalLocation'' party))));
          addr_line =
            (case address of
               None \<Rightarrow> []
             | Some a \<Rightarrow>
                 (case et_find ''cac:AddressLine'' a of
                    None \<Rightarrow> []
                  | Some al \<Rightarrow> find_text al ''cbc:Line'' []));
          city = (case address of None \<Rightarrow> [] | Some a \<Rightarrow> find_text a ''cbc:CityName'' []);
          dept =
            (case address of None \<Rightarrow> [] | Some a \<Rightarrow> find_text a ''cbc:CountrySubentity'' []);
          country =
            (case address of
               None \<Rightarrow> []
             | Some a \<Rightarrow>
                 (case et_find ''cac:Country'' a of
                    None \<Rightarrow> []
                  | Some c \<Rightarrow> find_text c ''cbc:IdentificationCode'' []));
          contact = et_find ''cac:Contact'' party;
          mail =
            (case contact of None \<Rightarrow> [] | Some c \<Rightarrow> find_text c ''cbc:ElectronicMail'' []);
          tel = (case contact of None \<Rightarrow> [] | Some c \<Rightarrow> find_text c ''cbc:Telephone'' [])
      in \<lparr>company_id = company_id1, registration_name = registration_name2,
          tax_level_code = none_if_empty tax_level,
          party_tax_scheme_id = none_if_empty scheme,
          address_line = none_if_empty addr_line,
          city_name = none_if_empty city,
          department = none_if_empty dept,
          country_code = none_if_empty country,
          email = none_if_empty mail,
          phone = none_if_empty tel,
          supplier_assigned_account_id = none_if_empty account\<rparr>)"

definition parse_invoice_line :: "pylib \<Rightarrow> xml \<Rightarrow> pyerror + InvoiceLine" where
  \<comment> \<open>\<open>_parse_invoice_line\<close>; the \<open>float\<close> of the quantity text is not guarded\<close>
  "parse_invoice_line lib line_element =
     (let quantity_elem = et_find ''cbc:InvoicedQuantity'' line_element;
          qty =
            (case quantity_elem of
               None \<Rightarrow> Inr 0
             | Some q \<Rightarrow>
                 (case elem_text q of
                    None \<Rightarrow> Inr 0
                  | Some t \<Rightarrow>
                      if t \<noteq> []
                      then (case float_of_str lib t of
                              None \<Rightarrow> Inl ValueError
                            | Some x \<Rightarrow> Inr x)
                      else Inr 0));
          unit =
            (case quantity_elem of
               None \<Rightarrow> ''EA''
             | Some q \<Rightarrow>
                 (case map_of (elem_attrib q) ''unitCode'' of
                    None \<Rightarrow> ''EA''
                  | Some u \<Rightarrow> u));
          item = et_find ''cac:Item'' line_element;
          desc =
            (case item of
               None \<Rightarrow> []
             | Some i \<Rightarrow>
                 (let d = find_text i ''cbc:Description'' [] in
                  if d = [] then find_text i ''cbc:Name'' [] else d));
          std_code =
            (case item of
               None \<Rightarrow> []
             | Some i \<Rightarrow>
                 (case et_find ''cac:StandardItemIdentification'' i of
                    None \<Rightarrow> []
                  | Some sid \<Rightarrow> find_text sid ''cbc:ID'' []));
          code =
            (case item of
               None \<Rightarrow> []
             | Some i \<Rightarrow>
                 if std_code = []
                 then (case et_find ''cac:SellersItemIdentification'' i of
                         None \<Rightarrow> std_code
                       | Some sel \<Rightarrow> find_text sel ''cbc:ID'' [])
                 else std_code);
          price =
            (case et_find ''cac:Price'' line_element of
               None \<Rightarrow> 0
             | Some pe \<Rightarrow> find_float lib pe ''cbc:PriceAmount'' 0);
          line_tax =
            (case et_find ''cac:TaxTotal'' line_element of
               None \<Rightarrow> None
             | Some tt \<Rightarrow> Some (find_float lib tt ''cbc:TaxAmount'' 0))
      in case qty of
           Inl err \<Rightarrow> Inl err
         | Inr qv \<Rightarrow>
             Inr \<lparr>line_id = find_text line_element ''cbc:ID'' [],
                  il_description = desc,
                  quantity = qv,
                  unit_code = unit,
                  unit_price = price,
                  il_line_extension_amount =
                    find_float lib line_element ''cbc:LineExtensionAmount'' 0,
                  product_code = none_if_empty code,
                  il_tax_amount = line_tax\<rparr>)"

fun parse_invoice_lines :: "pylib \<Rightarrow> xml list \<Rightarrow> pyerror + InvoiceLine list" where
  \<comment> \<open>the loop over the \<open>InvoiceLine\<close> elements: the first exception ends it\<close>
  "parse_invoice_lines lib [] = Inr []"
| "parse_invoice_lines lib (e # es) =
     (case parse_invoice_line lib e of
        Inl err \<Rightarrow> Inl err
      | Inr l \<Rightarrow>
          (case parse_invoice_lines lib es of
             Inl err \<Rightarrow> Inl err
           | Inr ls \<Rightarrow> Inr (l # ls)))"

definition parse_monetary_total :: "pylib \<Rightarrow> xml \<Rightarrow> MonetaryTotal" where
  \<comment> \<open>\<open>_parse_monetary_total\<close>\<close>
  "parse_monetary_total lib total_element =
     \<lparr>line_extension_amount = find_float lib total_element ''cbc:LineExtensionAmount'' 0,
      tax_exclusive_amount = find_float lib total_element ''cbc:TaxExclusiveAmount'' 0,
      tax_inclusive_amount = find_float lib total_element ''cbc:TaxInclusiveAmount'' 0,
      allowance_total_amount =
        Some (find_float lib total_element ''cbc:AllowanceTotalAmount'' 0),
      charge_total_amount = Some (find_float lib total_element ''cbc:ChargeTotalAmount'' 0),
      payable_amount = find_float lib total_element ''cbc:PayableAmount'' 0\<rparr>"

definition note_texts :: "xml \<Rightarrow> string list" where
  \<comment> \<open>the list \<open>notes\<close> of \<open>parse_dian_xml\<close>\<close>
  "note_texts xroot =
     concat (map (\<lambda>n. case elem_text n of
                         None \<Rightarrow> []
                       | Some t \<Rightarrow> if t \<noteq> [] then [py_strip t] else [])
                 (et_findall ''cbc:Note'' xroot))"

fun find_qr_code :: "pylib \<Rightarrow> string list \<Rightarrow> string option" where
  \<comment> \<open>the loop that looks for the QR link in the notes\<close>
  "find_qr_code lib [] = None"
| "find_qr_code lib (n # ns) =
     (if py_in ''catalogo-vpfe.dian.gov.co'' n \<or> py_in ''searchqr'' n
      then (case search_qr lib n of
              Some url \<Rightarrow> Some url
            | None \<Rightarrow> find_qr_code lib ns)
      else find_qr_code lib ns)"

definition parse_payment_means :: "pylib \<Rightarrow> xml \<Rightarrow> PaymentMeans list" where
  "parse_payment_means lib xroot =
     concat (map (\<lambda>pm_elem.
                    let pm_id = find_text pm_elem ''cbc:ID'' [];
                        pm_code = find_text pm_elem ''cbc:PaymentMeansCode'' [];
                        pm_due_date = find_text pm_elem ''cbc:PaymentDueDate'' []
                    in if pm_code \<noteq> []
                       then [\<lparr>payment_means_id = (if pm_id \<noteq> [] then pm_id else ''1''),
                              payment_means_code = pm_code,
                              payment_due_date = parse_date lib pm_due_date\<rparr>]
                       else [])
                 (et_findall ''cac:PaymentMeans'' xroot))"

definition parse_invoice_period :: "pylib \<Rightarrow> xml \<Rightarrow> InvoicePeriod option" where
  "parse_invoice_period lib xroot =
     (case et_find ''cac:InvoicePeriod'' xroot of
        None \<Rightarrow> None
      | Some pe \<Rightarrow>
          Some \<lparr>start_date = parse_date lib (find_text pe ''cbc:StartDate'' []),
                end_date = parse_date lib (find_text pe ''cbc:EndDate'' []),
                period_description = none_if_empty (find_text pe ''cbc:Description'' [])\<rparr>)"

definition parse_taxes :: "pylib \<Rightarrow> string \<Rightarrow> xml \<Rightarrow> TaxDetail list" where
  \<comment> \<open>the loops over \<open>cac:TaxTotal\<close> and over \<open>cac:WithholdingTaxTotal\<close>: an entry is kept
      when its scheme ID is not empty\<close>
  "parse_taxes lib t xroot =
     filter (\<lambda>tax. tax_scheme_id tax \<noteq> []) (map (parse_tax lib) (et_findall t xroot))"

definition allowance_charge_totals :: "pylib \<Rightarrow> xml \<Rightarrow> real \<times> real" where
  \<comment> \<open>the loop over \<open>cac:AllowanceCharge\<close>: (\<open>total_discount\<close>, \<open>total_charges\<close>)\<close>
  "allowance_charge_totals lib xroot =
     foldl (\<lambda>(discount, charges) ac_elem.
              let charge_indicator = find_text ac_elem ''cbc:ChargeIndicator'' ''false'';
                  amount = find_float lib ac_elem ''cbc:Amount'' 0
              in if py_lower charge_indicator = ''true''
                 then (discount, charges + amount)
                 else (discount + amount, charges))
           (0, 0) (et_findall ''cac:AllowanceCharge'' xroot)"

definition parse_order_reference :: "xml \<Rightarrow> OrderReference option" where
  "parse_order_reference xroot =
     (case et_find ''cac:OrderReference'' xroot of
        None \<Rightarrow> None
      | Some ore \<Rightarrow>
          (let oid = find_text ore ''cbc:ID'' [];
               sales = find_text ore ''cbc:SalesOrderID'' []
           in if oid \<noteq> []
              then Some \<lparr>order_id = oid, sales_order_id = none_if_empty sales\<rparr>
              else None))"

definition py_isdigit :: "string \<Rightarrow> bool" where
  \<comment> \<open>\<open>s.isdigit()\<close>: not empty, and made of digits and of the superscripts 1, 2 and 3\<close>
  "py_isdigit s =
     (s \<noteq> [] \<and> list_all (\<lambda>c. is_digit c \<or> (of_char c :: nat) \<in> {178, 179, 185}) s)"

definition line_count_value :: "pylib \<Rightarrow> string \<Rightarrow> InvoiceLine list \<Rightarrow> pyerror + int" where
  \<comment> \<open>\<open>int(line_count_numeric) if line_count_numeric.isdigit() else len(lines)\<close>\<close>
  "line_count_value lib line_count_numeric line_list =
     (if py_isdigit line_count_numeric
      then (case int_of_str lib line_count_numeric of
              None \<Rightarrow> Inl ValueError
            | Some n \<Rightarrow> Inr n)
      else Inr (int (length line_list)))"

definition empty_party :: PartyInfo where
  \<comment> \<open>\<open>PartyInfo(company_id="", registration_name="")\<close>\<close>
  "empty_party =
     \<lparr>company_id = [], registration_name = [], tax_level_code = None,
      party_tax_scheme_id = None, address_line = None, city_name = None, department = None,
      country_code = None, email = None, phone = None, supplier_assigned_account_id = None\<rparr>"

definition build_invoice ::
  "pylib \<Rightarrow> pydate \<Rightarrow> xml \<Rightarrow> AttachmentReference list \<Rightarrow> string option
     \<Rightarrow> InvoiceLine list \<Rightarrow> int \<Rightarrow> XMLInvoiceData" where
  \<comment> \<open>the value that \<open>parse_dian_xml\<close> returns, given the parsed lines and the line count\<close>
  "build_invoice lib today xroot refs xml_path line_list n =
     (let issue_date_str = find_text xroot ''cbc:IssueDate'' [];
          issue_time_str = find_text xroot ''cbc:IssueTime'' [];
          due_date_str = find_text xroot ''cbc:DueDate'' [];
          note_list = note_texts xroot;
          tax_list = parse_taxes lib ''cac:TaxTotal'' xroot;
          withholding_list = parse_taxes lib ''cac:WithholdingTaxTotal'' xroot;
          order_ref = parse_order_reference xroot;
          all_refs =
            (case order_ref of
               None \<Rightarrow> refs
             | Some r \<Rightarrow>
                 refs @ [\<lparr>reference_id = order_id r, reference_type = ''orden_compra'',
                          ref_description = Some ''Orden de Compra referenciada en factura'',
                          found_in_zip = False, matched_filename = None\<rparr>])
      in \<lparr>invoice_number = find_text xroot ''cbc:ID'' [],
          cufe = find_text xroot ''cbc:UUID'' [],
          issue_date =
            (case parse_date lib issue_date_str of
               Some d \<Rightarrow> d
             | None \<Rightarrow> today),
          issue_time = none_if_empty issue_time_str,
          due_date = parse_date lib due_date_str,
          currency_code = find_text xroot ''cbc:DocumentCurrencyCode'' ''COP'',
          invoice_type_code = find_text xroot ''cbc:InvoiceTypeCode'' ''01'',
          invoice_notes = note_list,
          supplier =
            (case et_find ''cac:AccountingSupplierParty'' xroot of
               None \<Rightarrow> empty_party
             | Some se \<Rightarrow> parse_party se),
          customer =
            (case et_find ''cac:AccountingCustomerParty'' xroot of
               None \<Rightarrow> empty_party
             | Some ce \<Rightarrow> parse_party ce),
          payment_means = parse_payment_means lib xroot,
          invoice_period = parse_invoice_period lib xroot,
          authorization = None,
          taxes = tax_list,
          withholding_taxes = withholding_list,
          monetary_total =
            (case et_find ''cac:LegalMonetaryTotal'' xroot of
               None \<Rightarrow> \<lparr>line_extension_amount = 0, tax_exclusive_amount = 0,
                         tax_inclusive_amount = 0, allowance_total_amount = Some 0,
                         charge_total_amount = Some 0, payable_amount = 0\<rparr>
             | Some me \<Rightarrow> parse_monetary_total lib me),
          total_discount = fst (allowance_charge_totals lib xroot),
          total_charges = snd (allowance_charge_totals lib xroot),
          prepaid_amount =
            (case et_find ''cac:PrepaidPayment'' xroot of
               None \<Rightarrow> 0
             | Some pe \<Rightarrow> find_float lib pe ''cbc:PaidAmount'' 0),
          lines = line_list,
          line_count = n,
          order_reference = order_ref,
          qr_code = find_qr_code lib note_list,
          total_iva =
            py_sum (map tax_amount (filter (\<lambda>t. tax_scheme_id t = ''01'') tax_list)),
          total_retenciones = py_sum (map tax_amount withholding_list),
          attachment_references = all_refs,
          raw_xml_path = xml_path\<rparr>)"

definition parse_invoice_root ::
  "pylib \<Rightarrow> pydate \<Rightarrow> xml \<Rightarrow> AttachmentReference list \<Rightarrow> string option
     \<Rightarrow> pyerror + XMLInvoiceData" where
  \<comment> \<open>\<open>parse_dian_xml\<close> from the root element on: \<open>today\<close> is the value of \<open>date.today()\<close>,
      \<open>refs\<close> the attachment references found in the envelope; \<open>Inl\<close> is the \<open>ValueError\<close>
      of a quantity or of a line count that cannot be read\<close>
  "parse_invoice_root lib today xroot refs xml_path =
     (case parse_invoice_lines lib (et_findall ''cac:InvoiceLine'' xroot) of
        Inl err \<Rightarrow> Inl err
      | Inr line_list \<Rightarrow>
          (case line_count_value lib (find_text xroot ''cbc:LineCountNumeric'' ''0'') line_list of
             Inl err \<Rightarrow> Inl err
           | Inr n \<Rightarrow> Inr (build_invoice lib today xroot refs xml_path line_list n)))"

section \<open>The rules engine (\<open>rules_engine.py\<close>)\<close>

text \<open>
  Accented letters of the Spanish messages are written by their code points: \<open>0xE1\<close> is a
  with acute, \<open>0xE9\<close> e with acute, \<open>0xED\<close> i with acute and \<open>0xF3\<close> o with acute.
\<close>

definition STATIC_RULES :: "ValidationRule list" where
  "STATIC_RULES =
     [\<lparr>id' = ''R001'', nombre = ''NIT Proveedor V'' @ [CHR 0xE1] @ ''lido'',
       descripcion = ''NIT del emisor debe existir en maestro de proveedores'',
       tipo = BLOCKING, fuentes = [''xml''], condicion = None, is_custom = False\<rparr>,
      \<lparr>id' = ''R002'', nombre = ''CUFE Presente'',
       descripcion = ''La factura debe tener CUFE v'' @ [CHR 0xE1] @ ''lido de la DIAN'',
       tipo = BLOCKING, fuentes = [''xml''], condicion = None, is_custom = False\<rparr>,
      \<lparr>id' = ''R003'', nombre = ''Totales Consistentes'',
       descripcion = ''Subtotal + IVA - Retenciones debe ser igual al Total a Pagar'',
       tipo = WARNING, fuentes = [''xml''], condicion = None, is_custom = False\<rparr>,
      \<lparr>id' = ''R004'', nombre = ''IVA Correcto'',
       descripcion = ''El porcentaje de IVA debe ser 19%'',
       tipo = WARNING, fuentes = [''xml''], condicion = None, is_custom = False\<rparr>,
      \<lparr>id' = ''R005'', nombre = ''Referencia Orden de Compra'',
       descripcion = ''La factura debe tener referencia a una Orden de Compra'',
       tipo = WARNING, fuentes = [''xml''], condicion = None, is_custom = False\<rparr>]"

definition VALID_NITS :: "string list" where
  "VALID_NITS = [''830099847'', ''900123456'', ''800999888'', ''860001022'', ''900555444'']"

definition evaluate_r001 :: "XMLInvoiceData option \<Rightarrow> RuleResult" where
  "evaluate_r001 xml_data =
     (let rule = STATIC_RULES ! 0 in
      case xml_data of
        None \<Rightarrow>
          \<lparr>rule_id = id' rule, rule_name = nombre rule, status = SKIPPED,
           message = ''Sin datos XML para validar'', details = None\<rparr>
      | Some d \<Rightarrow>
          (let nit = company_id (supplier d) in
           if nit \<in> set VALID_NITS
           then \<lparr>rule_id = id' rule, rule_name = nombre rule, status = PASSED,
                 message = ''NIT '' @ nit @ '' ('' @ registration_name (supplier d)
                           @ '') registrado en SAP'',
                 details = Some [(''nit'', PStr nit),
                                 (''nombre'', PStr (registration_name (supplier d)))]\<rparr>
           else \<lparr>rule_id = id' rule, rule_name = nombre rule, status = FAILED,
                 message = ''NIT '' @ nit @ '' NO encontrado en maestro de proveedores SAP'',
                 details = Some [(''nit'', PStr nit),
                                 (''valid_nits'', PList (map PStr VALID_NITS))]\<rparr>))"

definition evaluate_r002 :: "XMLInvoiceData option \<Rightarrow> RuleResult" where
  "evaluate_r002 xml_data =
     (let rule = STATIC_RULES ! 1 in
      case xml_data of
        None \<Rightarrow>
          \<lparr>rule_id = id' rule, rule_name = nombre rule, status = SKIPPED,
           message = ''Sin datos XML para validar'', details = None\<rparr>
      | Some d \<Rightarrow>
          if cufe d \<noteq> [] \<and> length (cufe d) > 10
          then \<lparr>rule_id = id' rule, rule_name = nombre rule, status = PASSED,
                message = ''CUFE v'' @ [CHR 0xE1] @ ''lido presente: '' @ take 20 (cufe d)
                          @ ''...'',
                details = Some [(''cufe'', PStr (cufe d))]\<rparr>
          else \<lparr>rule_id = id' rule, rule_name = nombre rule, status = FAILED,
                message = ''CUFE no encontrado o inv'' @ [CHR 0xE1] @ ''lido'',
                details = None\<rparr>)"

definition evaluate_r003 :: "pylib \<Rightarrow> XMLInvoiceData option \<Rightarrow> RuleResult" where
  "evaluate_r003 lib xml_data =
     (let rule = STATIC_RULES ! 2 in
      case xml_data of
        None \<Rightarrow>
          \<lparr>rule_id = id' rule, rule_name = nombre rule, status = SKIPPED,
           message = ''Sin datos XML para validar'', details = None\<rparr>
      | Some d \<Rightarrow>
          (let subtotal = line_extension_amount (monetary_total d);
               total_payable = payable_amount (monetary_total d);
               iva_amounts = map tax_amount (filter (\<lambda>t. tax_scheme_id t = ''01'') (taxes d));
               ret_amounts = map tax_amount (withholding_taxes d);
               calculated_total = subtotal + py_sum iva_amounts - py_sum ret_amounts;
               tolerance = total_payable * 0.01
           in if \<bar>calculated_total - total_payable\<bar> \<le> tolerance
              then \<lparr>rule_id = id' rule, rule_name = nombre rule, status = PASSED,
                    message = ''Totales consistentes: $'' @ format_comma0 lib subtotal
                              @ '' + $'' @ format_comma0 lib (py_sum iva_amounts)
                              @ '' - $'' @ format_comma0 lib (py_sum ret_amounts)
                              @ '' = $'' @ format_comma0 lib total_payable,
                    details = Some [(''subtotal'', PFloat subtotal),
                                    (''iva'', py_sum_val iva_amounts),
                                    (''retenciones'', py_sum_val ret_amounts),
                                    (''total_calculado'', PFloat calculated_total),
                                    (''total_factura'', PFloat total_payable)]\<rparr>
              else \<lparr>rule_id = id' rule, rule_name = nombre rule, status = FAILED,
                    message = ''Totales inconsistentes: Calculado $''
                              @ format_comma0 lib calculated_total
                              @ '' vs Factura $'' @ format_comma0 lib total_payable,
                    details = Some [(''subtotal'', PFloat subtotal),
                                    (''iva'', py_sum_val iva_amounts),
                                    (''retenciones'', py_sum_val ret_amounts),
                                    (''total_calculado'', PFloat calculated_total),
                                    (''total_factura'', PFloat total_payable),
                                    (''diferencia'',
                                     PFloat \<bar>calculated_total - total_payable\<bar>)]\<rparr>))"

definition evaluate_r004 :: "pylib \<Rightarrow> XMLInvoiceData option \<Rightarrow> RuleResult" where
  "evaluate_r004 lib xml_data =
     (let rule = STATIC_RULES ! 3;
          no_taxes =
            \<lparr>rule_id = id' rule, rule_name = nombre rule, status = SKIPPED,
             message = ''Sin informaci'' @ [CHR 0xF3] @ ''n de impuestos en XML'',
             details = None\<rparr>
      in case xml_data of
           None \<Rightarrow> no_taxes
         | Some d \<Rightarrow>
             if taxes d = [] then no_taxes
             else (case List.find (\<lambda>t. tax_scheme_id t = ''01'') (taxes d) of
                     None \<Rightarrow>
                       \<lparr>rule_id = id' rule, rule_name = nombre rule, status = SKIPPED,
                        message = ''No se encontr'' @ [CHR 0xF3] @ '' IVA en el XML'',
                        details = None\<rparr>
                   | Some iva_tax \<Rightarrow>
                       if tax_percentage iva_tax = 19.0
                       then \<lparr>rule_id = id' rule, rule_name = nombre rule, status = PASSED,
                             message = ''IVA correcto: ''
                                       @ str_of_float lib (tax_percentage iva_tax)
                                       @ ''% ($'' @ format_comma0 lib (tax_amount iva_tax)
                                       @ '')'',
                             details = Some [(''iva_percent'', PFloat (tax_percentage iva_tax)),
                                             (''iva_amount'', PFloat (tax_amount iva_tax))]\<rparr>
                       else \<lparr>rule_id = id' rule, rule_name = nombre rule, status = FAILED,
                             message = ''IVA es '' @ str_of_float lib (tax_percentage iva_tax)
                                       @ ''% (esperado: 19%)'',
                             details = Some [(''iva_percent'', PFloat (tax_percentage iva_tax)),
                                             (''expected'', PFloat 19.0)]\<rparr>))"

definition evaluate_r005 :: "XMLInvoiceData option \<Rightarrow> RuleResult" where
  "evaluate_r005 xml_data =
     (let rule = STATIC_RULES ! 4;
          missing =
            \<lparr>rule_id = id' rule, rule_name = nombre rule, status = FAILED,
             message = ''No se encontr'' @ [CHR 0xF3] @ '' referencia a Orden de Compra'',
             details = None\<rparr>
      in case xml_data of
           None \<Rightarrow>
             \<lparr>rule_id = id' rule, rule_name = nombre rule, status = SKIPPED,
              message = ''Sin datos XML para validar'', details = None\<rparr>
         | Some d \<Rightarrow>
             (case order_reference d of
                None \<Rightarrow> missing
              | Some r \<Rightarrow>
                  if order_id r \<noteq> []
                  then \<lparr>rule_id = id' rule, rule_name = nombre rule, status = PASSED,
                        message = ''Orden de Compra referenciada: '' @ order_id r,
                        details = Some [(''orden_compra'', PStr (order_id r))]\<rparr>
                  else missing))"

definition to_number :: "pylib \<Rightarrow> pyval \<Rightarrow> pyerror + real" where
  \<comment> \<open>\<open>float(v) if not isinstance(v, (int, float)) else v\<close>: a bool is an int; \<open>float\<close> raises
      \<open>ValueError\<close> on a string it cannot read and \<open>TypeError\<close> on \<open>None\<close>, a list or a dict\<close>
  "to_number lib v =
     (case v of
        PBool b \<Rightarrow> Inr (if b then 1 else 0)
      | PInt i \<Rightarrow> Inr (real_of_int i)
      | PFloat x \<Rightarrow> Inr x
      | PStr s \<Rightarrow>
          (case float_of_str lib s of
             None \<Rightarrow> Inl ValueError
           | Some x \<Rightarrow> Inr x)
      | PNone \<Rightarrow> Inl TypeError
      | PList xs \<Rightarrow> Inl TypeError
      | PDict kvs \<Rightarrow> Inl TypeError)"

definition compare_numbers :: "string \<Rightarrow> real \<Rightarrow> real \<Rightarrow> bool" where
  \<comment> \<open>the chain of comparisons inside the inner \<open>try\<close> of \<open>_compare_values\<close>\<close>
  "compare_numbers operator num1 num2 =
     (if operator = ''>'' then num1 > num2
      else if operator = ''<'' then num1 < num2
      else if operator = ''>='' then num1 \<ge> num2
      else if operator = ''<='' then num1 \<le> num2
      else if operator = ''=='' then num1 = num2
      else if operator = ''!='' then num1 \<noteq> num2
      else False)"

definition compare_values_try :: "pylib \<Rightarrow> pyval \<Rightarrow> string \<Rightarrow> pyval \<Rightarrow> pyerror + bool" where
  \<comment> \<open>the body of the outer \<open>try\<close> of \<open>RulesEngine._compare_values\<close>: \<open>Inl\<close> is an exception
      that leaves it\<close>
  "compare_values_try lib value1 operator value2 =
     (if value1 = PNone then Inr (operator = ''!='' \<and> value2 \<noteq> PNone)
      else if operator = ''exists''
      then Inr (value1 \<noteq> PNone \<and> py_strip (py_str lib value1) \<noteq> [])
      else if operator = ''contains''
      then Inr (py_in (py_lower (py_str lib value2)) (py_lower (py_str lib value1)))
      else if operator \<in> set [''>'', ''<'', ''>='', ''<='', ''=='', ''!='']
      then (case to_number lib value1 of
              Inr num1 \<Rightarrow>
                (case to_number lib value2 of
                   Inr num2 \<Rightarrow> Inr (compare_numbers operator num1 num2)
                 | Inl err \<Rightarrow>
                     if operator = ''=='' then Inr (py_str lib value1 = py_str lib value2)
                     else if operator = ''!='' then Inr (py_str lib value1 \<noteq> py_str lib value2)
                     else Inr False)
            | Inl err \<Rightarrow>
                if operator = ''=='' then Inr (py_str lib value1 = py_str lib value2)
                else if operator = ''!='' then Inr (py_str lib value1 \<noteq> py_str lib value2)
                else Inr False)
      else Inr False)"

definition compare_values :: "pylib \<Rightarrow> pyval \<Rightarrow> string \<Rightarrow> pyval \<Rightarrow> bool" where
  \<comment> \<open>\<open>RulesEngine._compare_values\<close>: any exception of the body gives \<open>False\<close>\<close>
  "compare_values lib value1 operator value2 =
     (case compare_values_try lib value1 operator value2 of
        Inr b \<Rightarrow> b
      | Inl err \<Rightarrow> False)"

definition dict_get :: "(string \<rightharpoonup> pyval) \<Rightarrow> string \<Rightarrow> pyval" where
  \<comment> \<open>\<open>data.get(key)\<close>\<close>
  "dict_get data k = (case data k of None \<Rightarrow> PNone | Some v \<Rightarrow> v)"

definition evaluate_custom_rule ::
  "pylib \<Rightarrow> ValidationRule \<Rightarrow> (string \<rightharpoonup> pyval) \<Rightarrow> RuleResult" where
  "evaluate_custom_rule lib rule data =
     (case condicion rule of
        None \<Rightarrow>
          \<lparr>rule_id = id' rule, rule_name = nombre rule, status = SKIPPED,
           message = ''Regla sin condici'' @ [CHR 0xF3] @ ''n definida'', details = None\<rparr>
      | Some cond \<Rightarrow>
          (let field_value = dict_get data (campo cond) in
           if field_value = PNone
           then \<lparr>rule_id = id' rule, rule_name = nombre rule, status = SKIPPED,
                 message = ''Campo '' @ [CHR 0x27] @ campo cond @ [CHR 0x27]
                           @ '' no encontrado'',
                 details = None\<rparr>
           else if compare_values lib field_value (operador cond) (valor cond)
           then \<lparr>rule_id = id' rule, rule_name = nombre rule, status = PASSED,
                 message = ''Condici'' @ [CHR 0xF3] @ ''n cumplida: '' @ campo cond @ '' ''
                           @ operador cond @ '' '' @ py_str lib (valor cond),
                 details = None\<rparr>
           else \<lparr>rule_id = id' rule, rule_name = nombre rule, status = FAILED,
                 message = ''Condici'' @ [CHR 0xF3] @ ''n NO cumplida: ''
                           @ py_str lib field_value @ '' '' @ operador cond @ '' ''
                           @ py_str lib (valor cond),
                 details = Some [(''field'', PStr (campo cond)),
                                 (''actual_value'', field_value),
                                 (''expected'',
                                  PStr (operador cond @ '' '' @ py_str lib (valor cond)))]\<rparr>))"

definition count_failed :: "RuleType \<Rightarrow> ValidationRule list \<Rightarrow> RuleResult list \<Rightarrow> nat" where
  \<comment> \<open>the two sums of \<open>validate\<close> over \<open>enumerate(results)\<close>, for a severity\<close>
  "count_failed ty custom_rules rs =
     length (filter (\<lambda>(i, r).
                       status r = FAILED
                       \<and> ((i < length STATIC_RULES \<and> tipo (STATIC_RULES ! i) = ty)
                          \<or> (i \<ge> length STATIC_RULES
                              \<and> tipo (custom_rules ! (i - length STATIC_RULES)) = ty)))
                    (List.enumerate 0 rs))"

definition validate ::
  "pylib \<Rightarrow> 'time \<Rightarrow> string \<Rightarrow> XMLInvoiceData option \<Rightarrow> ValidationRule list option
     \<Rightarrow> (string \<rightharpoonup> pyval) option \<Rightarrow> 'time ValidationResult" where
  \<comment> \<open>\<open>RulesEngine.validate\<close>; \<open>now\<close> is the value of \<open>datetime.now()\<close>; the argument
      \<open>documents\<close>, which the method does not read, is left out\<close>
  "validate lib now inv_id xml_data custom_rules_opt flat_data_opt =
     (let custom_rules = (case custom_rules_opt of None \<Rightarrow> [] | Some rs \<Rightarrow> rs);
          flat_data = (case flat_data_opt of None \<Rightarrow> Map.empty | Some m \<Rightarrow> m);
          res = [evaluate_r001 xml_data, evaluate_r002 xml_data, evaluate_r003 lib xml_data,
                 evaluate_r004 lib xml_data, evaluate_r005 xml_data]
                @ map (\<lambda>rule. evaluate_custom_rule lib rule flat_data) custom_rules;
          blocking = count_failed BLOCKING custom_rules res
      in \<lparr>invoice_id = inv_id, timestamp = now, results = res,
          blocking_failures = blocking,
          warnings = count_failed WARNING custom_rules res,
          passed = length (filter (\<lambda>r. status r = PASSED) res),
          can_submit = (blocking = 0)\<rparr>)"

section \<open>The reconciliation comparator (\<open>main.py\<close>)\<close>

definition py_truediv :: "real \<Rightarrow> real \<Rightarrow> pyerror + real" where
  \<comment> \<open>\<open>a / b\<close> on floats\<close>
  "py_truediv a b = (if b = 0 then Inl ZeroDivisionError else Inr (a / b))"

definition numeric_fallback :: "string \<Rightarrow> string \<Rightarrow> bool \<times> string \<times> string option" where
  \<comment> \<open>the \<open>except (ValueError, TypeError)\<close> branch of the numeric comparison\<close>
  "numeric_fallback xml_str oc_str =
     (if xml_str = oc_str then (True, ''exact'', None)
      else (False, ''mismatch'',
            Some (''No se pudo comparar num'' @ [CHR 0xE9] @ ''ricamente'')))"

definition oc_compare_values ::
  "pylib \<Rightarrow> pyval \<Rightarrow> pyval \<Rightarrow> string \<Rightarrow> real
     \<Rightarrow> pyerror + (bool \<times> string \<times> string option)" where
  \<comment> \<open>\<open>_compare_values\<close> of \<open>main.py\<close>: match, match type and note; \<open>Inl\<close> is an exception
      that leaves the function\<close>
  "oc_compare_values lib xml_val oc_val compare_type tolerance =
     (if xml_val = PNone \<and> oc_val = PNone
      then Inr (True, ''both_missing'',
                Some (''Ambos valores est'' @ [CHR 0xE1] @ ''n vac'' @ [CHR 0xED] @ ''os''))
      else if xml_val = PNone
      then Inr (False, ''missing_xml'', Some ''Valor no encontrado en XML'')
      else if oc_val = PNone
      then Inr (False, ''missing_oc'',
                Some (''Valor no extra'' @ [CHR 0xED] @ ''do de la OC''))
      else
       (let xml_str = py_lower (py_strip (py_str lib xml_val));
            oc_str = py_lower (py_strip (py_str lib oc_val));
            differ = Some (''XML: '' @ py_str lib xml_val @ '', OC: '' @ py_str lib oc_val)
        in if compare_type = ''exact''
           then (if xml_str = oc_str then Inr (True, ''exact'', None)
                 else if py_in xml_str oc_str \<or> py_in oc_str xml_str
                 then Inr (True, ''partial'', Some ''Coincidencia parcial'')
                 else Inr (False, ''mismatch'', differ))
           else if compare_type = ''contains''
           then (if py_in xml_str oc_str \<or> py_in oc_str xml_str
                 then Inr (True, ''exact'', None)
                 else
                  (let xml_words = set (py_split_ws xml_str);
                       oc_words = set (py_split_ws oc_str);
                       overlap = xml_words \<inter> oc_words
                   in if real (card overlap)
                           \<ge> real (min (card xml_words) (card oc_words)) * 0.5
                      then Inr (True, ''partial'', Some ''Coincidencia parcial de palabras'')
                      else Inr (False, ''mismatch'', differ)))
           else if compare_type = ''numeric''
           then (case parse_colombian_number lib xml_val of
                   None \<Rightarrow> Inr (numeric_fallback xml_str oc_str)
                 | Some xml_num \<Rightarrow>
                     (case parse_colombian_number lib oc_val of
                        None \<Rightarrow> Inr (numeric_fallback xml_str oc_str)
                      | Some oc_num \<Rightarrow>
                          (let mismatch =
                                 Inr (False, ''mismatch'',
                                      Some (''XML: $'' @ format_comma0 lib xml_num
                                            @ '', OC: $'' @ format_comma0 lib oc_num))
                           in if xml_num = oc_num then Inr (True, ''exact'', None)
                              else if xml_num \<noteq> 0
                              then (case py_truediv \<bar>xml_num - oc_num\<bar> \<bar>xml_num\<bar> of
                                      Inl err \<Rightarrow> Inl err
                                    | Inr diff_pct \<Rightarrow>
                                        if diff_pct \<le> tolerance
                                        then Inr (True, ''numeric_close'',
                                                  Some (''Diferencia: ''
                                                        @ format_fixed1 lib (diff_pct * 100)
                                                        @ ''%''))
                                        else mismatch)
                              else mismatch)))
           else Inr (False, ''unknown'',
                     Some (''Tipo de comparaci'' @ [CHR 0xF3] @ ''n desconocido''))))"

section \<open>An instance of the library for examples\<close>

text \<open>
  The examples need the library functions at a few arguments. Each function below agrees
  with Python on the arguments named in its comment; on every other argument it returns
  a fixed value that stands for nothing, and no example gives it such an argument.
\<close>

fun group_thousands :: "string \<Rightarrow> string" where
  \<comment> \<open>commas between groups of three digits, counted from the right, of reversed digits\<close>
  "group_thousands (a # b # c # d # ds) = a # b # c # CHR '','' # group_thousands (d # ds)"
| "group_thousands ds = ds"

definition integral_nonneg :: "real \<Rightarrow> bool" where
  "integral_nonneg x = (0 \<le> x \<and> x = of_int \<lfloor>x\<rfloor>)"

definition days_in_month :: "nat \<Rightarrow> nat \<Rightarrow> nat" where
  "days_in_month y m =
     (if m = 2 then (if (y mod 4 = 0 \<and> y mod 100 \<noteq> 0) \<or> y mod 400 = 0 then 29 else 28)
      else if m \<in> {4, 6, 9, 11} then 30 else 31)"

definition iso_date :: "string \<Rightarrow> pydate option" where
  \<comment> \<open>\<open>date.fromisoformat\<close> on strings of the form \<open>YYYY-MM-DD\<close>\<close>
  "iso_date s =
     (if length s = 10 \<and> s ! 4 = CHR ''-'' \<and> s ! 7 = CHR ''-''
         \<and> list_all is_digit (take 4 s @ take 2 (drop 5 s) @ drop 8 s)
      then (let y = digits_value (take 4 s);
                m = digits_value (take 2 (drop 5 s));
                d = digits_value (drop 8 s)
            in if 1 \<le> y \<and> 1 \<le> m \<and> m \<le> 12 \<and> 1 \<le> d \<and> d \<le> days_in_month y m
               then Some (Date y m d) else None)
      else None)"

definition example_lib :: pylib where
  "example_lib =
     \<lparr>float_of_str = decimal_float,
      \<comment> \<open>\<open>float\<close> on unsigned plain decimal numerals\<close>
      str_of_float = (\<lambda>x. if integral_nonneg x \<and> x < 10 ^ 16
                           then nat_digits (nat \<lfloor>x\<rfloor>) @ ''.0'' else []),
      \<comment> \<open>\<open>str\<close> on integral floats from 0 to below \<open>1e16\<close>\<close>
      str_of_container = (\<lambda>v. []),
      format_comma0 = (\<lambda>x. if integral_nonneg x
                            then rev (group_thousands (rev (nat_digits (nat \<lfloor>x\<rfloor>)))) else []),
      \<comment> \<open>\<open>format(x, ',.0f')\<close> on integral floats from 0 on\<close>
      format_fixed1 = (\<lambda>x. if integral_nonneg x then nat_digits (nat \<lfloor>x\<rfloor>) @ ''.0'' else []),
      \<comment> \<open>\<open>format(x, '.1f')\<close> on integral floats from 0 on\<close>
      date_fromisoformat = iso_date,
      int_of_str = (\<lambda>s. if s \<noteq> [] \<and> list_all is_digit s
                         then Some (int (digits_value s)) else None),
      \<comment> \<open>\<open>int\<close> on strings of decimal digits\<close>
      search_qr = (\<lambda>s. None)\<rparr>"

section \<open>Example documents\<close>

definition leaf :: "string \<Rightarrow> string \<Rightarrow> xml" where
  "leaf t txt = Element t [] (Some txt) []"

definition node :: "string \<Rightarrow> xml list \<Rightarrow> xml" where
  "node t cs = Element t [] None cs"

definition tax_total :: "string \<Rightarrow> string \<Rightarrow> string \<Rightarrow> string \<Rightarrow> string \<Rightarrow> xml" where
  \<comment> \<open>a \<open>TaxTotal\<close> or \<open>WithholdingTaxTotal\<close> element with one subtotal\<close>
  "tax_total t base amount percent scheme =
     node t
       [leaf ''cbc:TaxAmount'' amount,
        node ''cac:TaxSubtotal''
          [leaf ''cbc:TaxableAmount'' base,
           leaf ''cbc:TaxAmount'' amount,
           node ''cac:TaxCategory''
             [leaf ''cbc:Percent'' percent,
              node ''cac:TaxScheme'' [leaf ''cbc:ID'' scheme]]]]"

definition example_body :: "xml list" where
  "example_body =
     [leaf ''cbc:ID'' ''FV1001'',
      leaf ''cbc:UUID'' ''0f3a9c2e5b7d4e1f8a6b0c9d2e4f6a8b1c3d5e7f'',
      node ''cac:AccountingSupplierParty''
        [node ''cac:Party''
           [node ''cac:PartyTaxScheme''
              [leaf ''cbc:RegistrationName'' ''SOFTTEK RENOVATION SAS'',
               leaf ''cbc:CompanyID'' ''830099847'']]],
      tax_total ''cac:TaxTotal'' ''100000.00'' ''19000.00'' ''19.00'' ''01'',
      tax_total ''cac:WithholdingTaxTotal'' ''100000.00'' ''2500.00'' ''2.50'' ''06'',
      node ''cac:LegalMonetaryTotal''
        [leaf ''cbc:LineExtensionAmount'' ''100000.00'',
         leaf ''cbc:TaxExclusiveAmount'' ''100000.00'',
         leaf ''cbc:TaxInclusiveAmount'' ''119000.00'',
         leaf ''cbc:PayableAmount'' ''116500.00'']]"

definition example_invoice :: xml where
  \<comment> \<open>an invoice with an issue date\<close>
  "example_invoice = node ''Invoice'' (leaf ''cbc:IssueDate'' ''2025-03-04'' # example_body)"

definition example_undated :: xml where
  \<comment> \<open>the same invoice without its issue date\<close>
  "example_undated = node ''Invoice'' example_body"

definition example_two_rates :: xml where
  \<comment> \<open>an invoice with two IVA entries, at 19 and at 5 per cent\<close>
  "example_two_rates =
     node ''Invoice''
       [tax_total ''cac:TaxTotal'' ''100000.00'' ''19000.00'' ''19.00'' ''01'',
        tax_total ''cac:TaxTotal'' ''50000.00'' ''2500.00'' ''5.00'' ''01'']"

definition example_unknown_scheme :: xml where
  \<comment> \<open>an invoice with a tax of scheme 02, which the table does not list, and a tax
      without a scheme\<close>
  "example_unknown_scheme =
     node ''Invoice''
       [tax_total ''cac:TaxTotal'' ''100000.00'' ''8000.00'' ''8.00'' ''02'',
        node ''cac:TaxTotal'' [leaf ''cbc:TaxAmount'' ''100.00'']]"

section \<open>Properties of the Colombian-number parser\<close>

















section \<open>Properties of the rules engine\<close>

lemma py_sum_sum_list: "py_sum xs = sum_list xs"
proof -
  have "foldl (+) a xs = a + sum_list xs" for a :: real
    by (induction xs arbitrary: a) (simp_all add: algebra_simps)
  then show ?thesis by (simp add: py_sum_def)
qed

lemma static_rules_length: "length STATIC_RULES = 5"
  by (simp add: STATIC_RULES_def)

lemma static_rule_result_ids:
  "rule_id (evaluate_r001 x) = ''R001''"
  "rule_id (evaluate_r002 x) = ''R002''"
  "rule_id (evaluate_r003 lib x) = ''R003''"
  "rule_id (evaluate_r004 lib x) = ''R004''"
  "rule_id (evaluate_r005 x) = ''R005''"
  by (simp_all add: evaluate_r001_def evaluate_r002_def evaluate_r003_def evaluate_r004_def
      evaluate_r005_def Let_def STATIC_RULES_def split: option.splits)

lemma custom_rule_result_id: "rule_id (evaluate_custom_rule lib rule data) = id' rule"
  by (simp add: evaluate_custom_rule_def Let_def split: option.splits)

lemma validate_results:
  "results (validate lib now i x cr fd) =
     [evaluate_r001 x, evaluate_r002 x, evaluate_r003 lib x, evaluate_r004 lib x,
      evaluate_r005 x]
     @ map (\<lambda>rule. evaluate_custom_rule lib rule
                     (case fd of None \<Rightarrow> Map.empty | Some m \<Rightarrow> m))
           (case cr of None \<Rightarrow> [] | Some rs \<Rightarrow> rs)"
  by (simp add: validate_def Let_def)

lemma validate_counts:
  "blocking_failures (validate lib now i x cr fd) =
     count_failed BLOCKING (case cr of None \<Rightarrow> [] | Some rs \<Rightarrow> rs)
       (results (validate lib now i x cr fd))"
  "warnings (validate lib now i x cr fd) =
     count_failed WARNING (case cr of None \<Rightarrow> [] | Some rs \<Rightarrow> rs)
       (results (validate lib now i x cr fd))"
  "passed (validate lib now i x cr fd) =
     length (filter (\<lambda>r. status r = PASSED) (results (validate lib now i x cr fd)))"
  "can_submit (validate lib now i x cr fd) =
     (blocking_failures (validate lib now i x cr fd) = 0)"
  by (simp_all add: validate_def Let_def)

lemma count_failed_zip:
  assumes len: "length rs = length STATIC_RULES + length custom"
  shows "count_failed ty custom rs =
         length (filter (\<lambda>(rule, r). status r = FAILED \<and> tipo rule = ty)
                        (zip (STATIC_RULES @ custom) rs))"
proof -
  let ?rules = "STATIC_RULES @ custom"
  let ?P = "\<lambda>(rule, r). status r = FAILED \<and> tipo rule = ty"
  let ?f = "\<lambda>(i, r). (?rules ! i, r)"
  let ?Q = "\<lambda>(i, r). status r = FAILED
              \<and> ((i < length STATIC_RULES \<and> tipo (STATIC_RULES ! i) = ty)
                 \<or> (i \<ge> length STATIC_RULES
                     \<and> tipo (custom ! (i - length STATIC_RULES)) = ty))"
  have z: "zip ?rules rs = map ?f (List.enumerate 0 rs)"
    using len by (auto simp: list_eq_iff_nth_eq nth_enumerate_eq)
  have "filter ?Q (List.enumerate 0 rs) = filter (?P \<circ> ?f) (List.enumerate 0 rs)"
    by (rule filter_cong) (auto simp: in_set_enumerate_eq nth_append split: if_splits)
  then have "length (filter ?Q (List.enumerate 0 rs))
             = length (filter ?P (map ?f (List.enumerate 0 rs)))"
    by (simp add: filter_map)
  then show ?thesis unfolding count_failed_def z by simp
qed


text \<open>
  Claim C3. In the result of \<open>validate\<close>, pairing each rule (the five static rules, then the
  custom rules as supplied) with its result: \<open>blocking_failures\<close> counts the failed results
  of blocking rules, \<open>warnings\<close> the failed results of warning rules, \<open>passed\<close> the passed
  results of any rule, and \<open>can_submit\<close> holds exactly when \<open>blocking_failures\<close> is zero.
\<close>

theorem validate_aggregation:
  "let v = validate lib now i x cr fd;
       rules = STATIC_RULES @ (case cr of None \<Rightarrow> [] | Some rs \<Rightarrow> rs)
   in blocking_failures v =
        length (filter (\<lambda>(rule, r). status r = FAILED \<and> tipo rule = BLOCKING)
                       (zip rules (results v)))
    \<and> warnings v =
        length (filter (\<lambda>(rule, r). status r = FAILED \<and> tipo rule = WARNING)
                       (zip rules (results v)))
    \<and> passed v = length (filter (\<lambda>r. status r = PASSED) (results v))
    \<and> can_submit v = (blocking_failures v = 0)
    \<and> length (results v) = length rules
    \<and> map rule_id (results v) = map id' rules"
proof -
  let ?c = "case cr of None \<Rightarrow> [] | Some rs \<Rightarrow> rs"
  have len: "length (results (validate lib now i x cr fd)) = length STATIC_RULES + length ?c"
    by (simp add: validate_results static_rules_length)
  have ids: "map rule_id (results (validate lib now i x cr fd)) = map id' (STATIC_RULES @ ?c)"
    by (simp add: validate_results static_rule_result_ids custom_rule_result_id
        STATIC_RULES_def)
  show ?thesis
    unfolding Let_def validate_counts
    using count_failed_zip [OF len] len ids by simp
qed

text \<open>
  Claim C10. The result of \<open>validate\<close> with \<open>n\<close> custom rules holds 5 + \<open>n\<close> rule results: the
  results of R001, R002, R003, R004 and R005 in this order, then the result of each custom
  rule in the order supplied, each under the id of its rule.
\<close>

theorem validate_result_list:
  "let v = validate lib now i x cr fd;
       custom = (case cr of None \<Rightarrow> [] | Some rs \<Rightarrow> rs);
       flat = (case fd of None \<Rightarrow> Map.empty | Some m \<Rightarrow> m)
   in length (results v) = 5 + length custom
    \<and> take 5 (results v) =
        [evaluate_r001 x, evaluate_r002 x, evaluate_r003 lib x, evaluate_r004 lib x,
         evaluate_r005 x]
    \<and> map rule_id (take 5 (results v)) = [''R001'', ''R002'', ''R003'', ''R004'', ''R005'']
    \<and> drop 5 (results v) = map (\<lambda>rule. evaluate_custom_rule lib rule flat) custom
    \<and> map rule_id (drop 5 (results v)) = map id' custom"
  by (simp add: Let_def validate_results static_rule_result_ids custom_rule_result_id)





section \<open>Properties of the reconciliation comparator\<close>

lemma oc_compare_values_no_exception:
  "oc_compare_values lib xml_val oc_val compare_type tolerance \<noteq> Inl err"
  by (simp add: oc_compare_values_def Let_def py_truediv_def split: option.splits)

lemma example_str_zero: "py_str example_lib (PFloat 0) = ''0.0''"
  by (simp add: example_lib_def integral_nonneg_def digit_char_def)

lemma example_format_comma0:
  "format_comma0 example_lib 0 = ''0''"
  "format_comma0 example_lib 19000000 = ''19,000,000''"
  by (simp_all add: example_lib_def integral_nonneg_def digit_char_def)

lemma example_parse_zero: "parse_colombian_number example_lib (PFloat 0) = Some 0"
proof -
  have n: "colombian_normalized ''0.0'' = ''0.0''" by code_simp
  have d: "decimal_float ''0.0'' = Some 0"
    by (simp add: decimal_float_def is_digit_def digits_value_def)
  show ?thesis
    unfolding parse_colombian_number_def example_str_zero n by (simp add: example_lib_def d)
qed

lemma example_parse_millions:
  "parse_colombian_number example_lib (PStr ''$ 19.000.000'') = Some 19000000"
proof -
  have n: "colombian_normalized ''$ 19.000.000'' = ''19000000''" by code_simp
  have d: "decimal_float ''19000000'' = Some 19000000"
    by (simp add: decimal_float_def is_digit_def digits_value_def)
  show ?thesis
    unfolding parse_colombian_number_def py_str.simps n by (simp add: example_lib_def d)
qed

text \<open>
  Claim C9. In the numeric comparison, when both values are present, the XML-side value
  parses to 0 and the OCR-side value parses to a number other than 0, the comparison
  returns match false with type \<open>mismatch\<close> for every tolerance: no exception leaves
  the function, so the relative difference is not computed.
\<close>

theorem oc_compare_numeric_zero_xml:
  assumes "xml_val \<noteq> PNone" and "oc_val \<noteq> PNone"
    and "parse_colombian_number lib xml_val = Some 0"
    and "parse_colombian_number lib oc_val = Some y" and "y \<noteq> 0"
  shows "oc_compare_values lib xml_val oc_val ''numeric'' tolerance =
           Inr (False, ''mismatch'',
                Some (''XML: $'' @ format_comma0 lib 0 @ '', OC: $'' @ format_comma0 lib y))"
  using assms by (simp add: oc_compare_values_def Let_def)

theorem oc_compare_numeric_zero_xml_witness:
  "oc_compare_values example_lib (PFloat 0) (PStr ''$ 19.000.000'') ''numeric'' 0.05 =
     Inr (False, ''mismatch'', Some ''XML: $0, OC: $19,000,000'')"
  using oc_compare_numeric_zero_xml
    [of "PFloat 0" "PStr ''$ 19.000.000''" example_lib 19000000 "0.05"]
  by (simp add: example_parse_zero example_parse_millions example_format_comma0)

section \<open>Properties of the XML parser\<close>


lemma build_invoice_fields:
  "taxes (build_invoice lib today x refs p ls n) = parse_taxes lib ''cac:TaxTotal'' x"
  "withholding_taxes (build_invoice lib today x refs p ls n) =
     parse_taxes lib ''cac:WithholdingTaxTotal'' x"
  "total_iva (build_invoice lib today x refs p ls n) =
     py_sum (map tax_amount
               (filter (\<lambda>t. tax_scheme_id t = ''01'') (parse_taxes lib ''cac:TaxTotal'' x)))"
  "total_retenciones (build_invoice lib today x refs p ls n) =
     py_sum (map tax_amount (parse_taxes lib ''cac:WithholdingTaxTotal'' x))"
  "issue_date (build_invoice lib today x refs p ls n) =
     (case parse_date lib (find_text x ''cbc:IssueDate'' []) of
        Some dt \<Rightarrow> dt | None \<Rightarrow> today)"
  by (simp_all add: build_invoice_def Let_def)


lemma parse_invoice_root_built:
  assumes "parse_invoice_root lib today x refs p = Inr d"
  shows "\<exists>ls n. d = build_invoice lib today x refs p ls n"
  using assms unfolding parse_invoice_root_def by (auto split: sum.splits)

lemma parse_invoice_root_returns:
  assumes "et_findall ''cac:InvoiceLine'' x = []"
    and "et_find ''cbc:LineCountNumeric'' x = None"
    and "int_of_str lib ''0'' = Some 0"
  shows "parse_invoice_root lib today x refs p = Inr (build_invoice lib today x refs p [] 0)"
  using assms
  by (simp add: parse_invoice_root_def line_count_value_def find_text_def find_text_node_def
      py_isdigit_def is_digit_def)

lemmas xml_eval = et_find_def et_findall_def find_text_def find_text_node_def find_float_def
  leaf_def node_def tax_total_def py_strip_def is_space_def

lemmas num_eval = decimal_float_def is_digit_def digits_value_def

lemmas tax_eval = parse_taxes_def parse_tax_def tax_scheme_name_def TAX_SCHEME_NAMES_def Let_def

lemma example_no_lines:
  "et_findall ''cac:InvoiceLine'' example_invoice = []"
  "et_find ''cbc:LineCountNumeric'' example_invoice = None"
  "et_findall ''cac:InvoiceLine'' example_undated = []"
  "et_find ''cbc:LineCountNumeric'' example_undated = None"
  "et_findall ''cac:InvoiceLine'' example_two_rates = []"
  "et_find ''cbc:LineCountNumeric'' example_two_rates = None"
  "et_findall ''cac:InvoiceLine'' example_unknown_scheme = []"
  "et_find ''cbc:LineCountNumeric'' example_unknown_scheme = None"
  by (simp_all add: xml_eval example_invoice_def example_undated_def example_body_def
      example_two_rates_def example_unknown_scheme_def)

lemma example_int_zero: "int_of_str example_lib ''0'' = Some 0"
  by (simp add: example_lib_def num_eval)

lemma example_parses:
  "parse_invoice_root example_lib today example_invoice refs p =
     Inr (build_invoice example_lib today example_invoice refs p [] 0)"
  "parse_invoice_root example_lib today example_undated refs p =
     Inr (build_invoice example_lib today example_undated refs p [] 0)"
  "parse_invoice_root example_lib today example_two_rates refs p =
     Inr (build_invoice example_lib today example_two_rates refs p [] 0)"
  "parse_invoice_root example_lib today example_unknown_scheme refs p =
     Inr (build_invoice example_lib today example_unknown_scheme refs p [] 0)"
  by (rule parse_invoice_root_returns; simp add: example_no_lines example_int_zero)+

lemma example_invoice_taxes:
  "parse_taxes example_lib ''cac:TaxTotal'' example_invoice =
     [\<lparr>tax_scheme_id = ''01'', tax_name = ''IVA'', taxable_amount = 100000,
       tax_percentage = 19, tax_amount = 19000\<rparr>]"
  "parse_taxes example_lib ''cac:WithholdingTaxTotal'' example_invoice =
     [\<lparr>tax_scheme_id = ''06'', tax_name = ''ReteRenta'', taxable_amount = 100000,
       tax_percentage = 2.5, tax_amount = 2500\<rparr>]"
  by (simp_all add: tax_eval xml_eval num_eval example_lib_def example_invoice_def
      example_body_def)

lemma example_two_rates_taxes:
  "parse_taxes example_lib ''cac:TaxTotal'' example_two_rates =
     [\<lparr>tax_scheme_id = ''01'', tax_name = ''IVA'', taxable_amount = 100000,
       tax_percentage = 19, tax_amount = 19000\<rparr>,
      \<lparr>tax_scheme_id = ''01'', tax_name = ''IVA'', taxable_amount = 50000,
       tax_percentage = 5, tax_amount = 2500\<rparr>]"
  by (simp add: tax_eval xml_eval num_eval example_lib_def example_two_rates_def)

lemma example_unknown_scheme_taxes:
  "parse_taxes example_lib ''cac:TaxTotal'' example_unknown_scheme =
     [\<lparr>tax_scheme_id = ''02'', tax_name = ''Tax-02'', taxable_amount = 100000,
       tax_percentage = 8, tax_amount = 8000\<rparr>]"
  "parse_taxes example_lib ''cac:WithholdingTaxTotal'' example_unknown_scheme = []"
  by (simp_all add: tax_eval xml_eval num_eval example_lib_def example_unknown_scheme_def)


lemma find_first_filter:
  "List.find P xs = (case filter P xs of [] \<Rightarrow> None | x # _ \<Rightarrow> Some x)"
  by (induction xs) auto

text \<open>
  Claim C4. In a parsed document \<open>total_iva\<close> is the sum of the amounts of the kept output
  taxes of scheme 01 and \<open>total_retenciones\<close> the sum of the amounts of all kept
  withholding taxes, whatever their scheme; the kept entries of either list are the
  parsed entries with a scheme ID that is not empty.
\<close>

theorem parse_derived_totals:
  assumes "parse_invoice_root lib today xroot refs path = Inr d"
  shows "total_iva d = (\<Sum>t\<leftarrow>filter (\<lambda>t. tax_scheme_id t = ''01'') (taxes d). tax_amount t)
       \<and> total_retenciones d = (\<Sum>t\<leftarrow>withholding_taxes d. tax_amount t)
       \<and> taxes d = filter (\<lambda>t. tax_scheme_id t \<noteq> [])
                      (map (parse_tax lib) (et_findall ''cac:TaxTotal'' xroot))
       \<and> withholding_taxes d =
           filter (\<lambda>t. tax_scheme_id t \<noteq> [])
             (map (parse_tax lib) (et_findall ''cac:WithholdingTaxTotal'' xroot))"
proof -
  from parse_invoice_root_built [OF assms]
  obtain ls n where d: "d = build_invoice lib today xroot refs path ls n" by blast
  show ?thesis
    unfolding d build_invoice_fields py_sum_sum_list by (simp add: parse_taxes_def)
qed

theorem parse_derived_totals_witness:
  "parse_invoice_root example_lib (Date 2026 1 15) example_invoice [] None =
     Inr (build_invoice example_lib (Date 2026 1 15) example_invoice [] None [] 0)
   \<and> map tax_amount (taxes (build_invoice example_lib (Date 2026 1 15) example_invoice
                              [] None [] 0)) = [19000]
   \<and> map tax_amount (withholding_taxes (build_invoice example_lib (Date 2026 1 15)
                                          example_invoice [] None [] 0)) = [2500]
   \<and> total_iva (build_invoice example_lib (Date 2026 1 15) example_invoice [] None [] 0)
       = 19000
   \<and> total_retenciones (build_invoice example_lib (Date 2026 1 15) example_invoice
                          [] None [] 0) = 2500"
proof -
  let ?d = "build_invoice example_lib (Date 2026 1 15) example_invoice [] None [] 0"
  have p: "parse_invoice_root example_lib (Date 2026 1 15) example_invoice [] None = Inr ?d"
    by (rule example_parses)
  have t: "taxes ?d = parse_taxes example_lib ''cac:TaxTotal'' example_invoice"
    and w: "withholding_taxes ?d =
            parse_taxes example_lib ''cac:WithholdingTaxTotal'' example_invoice"
    by (simp_all add: build_invoice_fields)
  from parse_derived_totals [OF p] have
    "total_iva ?d = (\<Sum>t\<leftarrow>filter (\<lambda>t. tax_scheme_id t = ''01'') (taxes ?d). tax_amount t)"
    "total_retenciones ?d = (\<Sum>t\<leftarrow>withholding_taxes ?d. tax_amount t)"
    by simp_all
  then show ?thesis
    unfolding t w example_invoice_taxes using p by simp
qed

text \<open>
  Claim C5, as the code has it. With a document present, rule R004 looks at the first
  output tax of scheme 01 only: without such an entry (in particular without any output
  tax) it is skipped, it passes when the percentage of that first entry is 19, and it
  fails otherwise, with \<open>expected\<close> 19 in its details. Entries of scheme 01 after the
  first are not examined.
\<close>

theorem evaluate_r004_first_iva:
  "let r = evaluate_r004 lib (Some d) in
     (case filter (\<lambda>t. tax_scheme_id t = ''01'') (taxes d) of
        [] \<Rightarrow> status r = SKIPPED
      | t # _ \<Rightarrow>
          if tax_percentage t = 19 then status r = PASSED
          else status r = FAILED
               \<and> map_of (the (details r)) ''expected'' = Some (PFloat 19))"
  by (auto simp: evaluate_r004_def Let_def find_first_filter split: list.splits)

text \<open>
  The claim as worded lets any entry of scheme 01 with another percentage fail the rule.
  The document with two IVA entries, at 19 and at 5 per cent, parses with both entries
  kept, and R004 passes on it.
\<close>

theorem evaluate_r004_second_entry_counterexample:
  "parse_invoice_root example_lib (Date 2026 1 15) example_two_rates [] None =
     Inr (build_invoice example_lib (Date 2026 1 15) example_two_rates [] None [] 0)
   \<and> map tax_scheme_id (taxes (build_invoice example_lib (Date 2026 1 15) example_two_rates
                                 [] None [] 0)) = [''01'', ''01'']
   \<and> map tax_percentage (taxes (build_invoice example_lib (Date 2026 1 15)
                                  example_two_rates [] None [] 0)) = [19, 5]
   \<and> status (evaluate_r004 example_lib
               (Some (build_invoice example_lib (Date 2026 1 15) example_two_rates
                        [] None [] 0))) = PASSED"
  by (simp add: example_parses build_invoice_fields example_two_rates_taxes
      evaluate_r004_def Let_def)

text \<open>
  Claim C6, as the code has it. The name of a scheme ID is IVA for 01, INC for 04, ReteIVA
  for 05, ReteRenta for 06, ReteICA for 07 and Otros for ZZ; every other ID, known to no
  table, gets the name \<open>Tax-\<close> followed by the ID. Each parsed entry carries the name of
  its scheme ID, and the tax lists of a parsed document keep exactly the entries with a
  scheme ID that is not empty.
\<close>

theorem tax_scheme_resolution:
  assumes "parse_invoice_root lib today xroot refs path = Inr d"
  shows "tax_scheme_name sid =
           (if sid = ''01'' then ''IVA'' else if sid = ''04'' then ''INC''
            else if sid = ''05'' then ''ReteIVA'' else if sid = ''06'' then ''ReteRenta''
            else if sid = ''07'' then ''ReteICA'' else if sid = ''ZZ'' then ''Otros''
            else ''Tax-'' @ sid)
       \<and> tax_name (parse_tax lib e) = tax_scheme_name (tax_scheme_id (parse_tax lib e))
       \<and> taxes d = filter (\<lambda>t. tax_scheme_id t \<noteq> [])
                      (map (parse_tax lib) (et_findall ''cac:TaxTotal'' xroot))
       \<and> withholding_taxes d =
           filter (\<lambda>t. tax_scheme_id t \<noteq> [])
             (map (parse_tax lib) (et_findall ''cac:WithholdingTaxTotal'' xroot))"
proof -
  from parse_invoice_root_built [OF assms]
  obtain ls n where d: "d = build_invoice lib today xroot refs path ls n" by blast
  have "tax_name (parse_tax lib e) = tax_scheme_name (tax_scheme_id (parse_tax lib e))"
    by (simp add: parse_tax_def Let_def)
  then show ?thesis
    unfolding d build_invoice_fields
    by (simp add: parse_taxes_def tax_scheme_name_def TAX_SCHEME_NAMES_def)
qed

theorem tax_scheme_resolution_witness:
  "parse_invoice_root example_lib (Date 2026 1 15) example_unknown_scheme [] None =
     Inr (build_invoice example_lib (Date 2026 1 15) example_unknown_scheme [] None [] 0)
   \<and> length (et_findall ''cac:TaxTotal'' example_unknown_scheme) = 2
   \<and> filter (\<lambda>t. tax_scheme_id t \<noteq> [])
        (map (parse_tax example_lib) (et_findall ''cac:TaxTotal'' example_unknown_scheme)) =
       [\<lparr>tax_scheme_id = ''02'', tax_name = ''Tax-02'', taxable_amount = 100000,
         tax_percentage = 8, tax_amount = 8000\<rparr>]
   \<and> tax_scheme_name ''06'' = ''ReteRenta''"
proof -
  let ?d = "build_invoice example_lib (Date 2026 1 15) example_unknown_scheme [] None [] 0"
  have p: "parse_invoice_root example_lib (Date 2026 1 15) example_unknown_scheme [] None
           = Inr ?d"
    by (rule example_parses)
  have t: "taxes ?d = parse_taxes example_lib ''cac:TaxTotal'' example_unknown_scheme"
    by (simp add: build_invoice_fields)
  have n: "length (et_findall ''cac:TaxTotal'' example_unknown_scheme) = 2"
    by (simp add: xml_eval example_unknown_scheme_def)
  from tax_scheme_resolution [OF p, of "''06''"] have
    "tax_scheme_name ''06'' = ''ReteRenta''"
    "taxes ?d = filter (\<lambda>t. tax_scheme_id t \<noteq> [])
                  (map (parse_tax example_lib)
                     (et_findall ''cac:TaxTotal'' example_unknown_scheme))"
    by simp_all
  then show ?thesis
    using p n unfolding t example_unknown_scheme_taxes by simp
qed

text \<open>
  The claim as worded gives every unknown scheme ID the name Otros and discards what it
  cannot resolve. The ID 02 is in no table: its name is \<open>Tax-02\<close>, and the parsed
  document keeps the entry under that name.
\<close>

theorem tax_scheme_unknown_counterexample:
  "tax_scheme_name ''02'' = ''Tax-02''
   \<and> parse_invoice_root example_lib (Date 2026 1 15) example_unknown_scheme [] None =
       Inr (build_invoice example_lib (Date 2026 1 15) example_unknown_scheme [] None [] 0)
   \<and> map tax_scheme_id (taxes (build_invoice example_lib (Date 2026 1 15)
                                 example_unknown_scheme [] None [] 0)) = [''02'']
   \<and> map tax_name (taxes (build_invoice example_lib (Date 2026 1 15)
                            example_unknown_scheme [] None [] 0)) = [''Tax-02'']"
  by (simp add: example_parses build_invoice_fields example_unknown_scheme_taxes
      tax_scheme_name_def TAX_SCHEME_NAMES_def)




end
